theory Spec2Isabelle
  imports Complex_Main
begin

section \<open>Data exchanged between the host and the worker\<close>

text \<open>
  The worker (\<^verbatim>\<open>worker.ts\<close>) is the orchestration layer of the chat: it owns the
  model singleton, the interruptable stopping criteria and the message listener.
  \<^verbatim>\<open>Config\<close> is the type of lines 14-18; its three fields are string literals
  taken from \<^verbatim>\<open>const.ts\<close>.
\<close>

type_synonym token = int
type_synonym tensor = "token list list"
type_synonym handle = nat

record Config =
  modelName :: string
  dtype :: string
  device :: string

record Message =
  role :: string
  content :: string

text \<open>
  A JavaScript number as far as the throughput formula needs it: division by zero
  gives an infinity (or NaN for 0/0) instead of raising. Rounding of doubles is not
  modelled: finite values are exact reals.
\<close>

datatype number = Finite real | PosInfinity | NegInfinity | NaN

definition js_div :: "real \<Rightarrow> real \<Rightarrow> number" where
  "js_div a b =
     (if b \<noteq> 0 then Finite (a / b)
      else if a = 0 then NaN
      else if 0 < a then PosInfinity else NegInfinity)"

fun js_times :: "number \<Rightarrow> real \<Rightarrow> number" where
  "js_times (Finite x) k = Finite (x * k)"
| "js_times NaN k = NaN"
| "js_times PosInfinity k = (if k = 0 then NaN else if 0 < k then PosInfinity else NegInfinity)"
| "js_times NegInfinity k = (if k = 0 then NaN else if 0 < k then NegInfinity else PosInfinity)"

text \<open>The payload of a progress callback of the library; the worker never looks inside.\<close>

record ProgressInfo =
  progress_status :: string
  progress_file :: string

text \<open>
  The messages the worker posts to the host, one constructor per \<^verbatim>\<open>status\<close>;
  \<open>Republished x\<close> is \<^verbatim>\<open>self.postMessage(x)\<close> of the progress callback (line 182).
\<close>

datatype event =
    Loading string
  | Republished ProgressInfo
  | Ready
  | Start
  | Update string "number option" nat
  | Complete "string list"
  | Error string

section \<open>External collaborators\<close>

text \<open>
  What \<^verbatim>\<open>apply_chat_template\<close> can return, by its declared type: a
  \<^verbatim>\<open>BatchEncoding\<close>, a tensor or number array, or a string. \<open>js_typeof\<close> is
  JavaScript's \<^verbatim>\<open>typeof\<close> on these values.
\<close>

datatype encoded = BatchEncoding tensor | Numbers tensor | Text string

fun js_typeof :: "encoded \<Rightarrow> string" where
  "js_typeof (BatchEncoding _) = ''object''"
| "js_typeof (Numbers _) = ''object''"
| "js_typeof (Text _) = ''string''"

text \<open>
  The tokenizer of the library, as a record of the four methods the worker calls.
  \<open>apply_chat_template\<close> is the call of line 106, with \<^verbatim>\<open>add_generation_prompt\<close>
  and \<^verbatim>\<open>return_dict\<close> set; it may throw (\<open>Inl\<close>). The boolean of the two decoders
  is \<^verbatim>\<open>skip_special_tokens\<close>; \<open>call\<close> is the tokenizer applied to a text (line 192).
\<close>

record PreTrainedTokenizer =
  apply_chat_template :: "Message list \<Rightarrow> string + encoded"
  decode :: "token list \<Rightarrow> bool \<Rightarrow> string"
  batch_decode :: "tensor \<Rightarrow> bool \<Rightarrow> string list"
  call :: "string \<Rightarrow> tensor"

text \<open>\<^verbatim>\<open>CallbackTextStreamer\<close> (lines 20-34): the options its constructor passes on.\<close>

record TextStreamer =
  skip_prompt :: bool
  skip_special_tokens :: bool

definition CallbackTextStreamer :: TextStreamer where
  "CallbackTextStreamer = \<lparr>skip_prompt = True, skip_special_tokens = True\<rparr>"

text \<open>The argument object of \<^verbatim>\<open>model.generate\<close>, as built at lines 146-151 and 193-196.\<close>

record GenerateArgs =
  inputs :: encoded
  max_new_tokens :: nat
  streamer :: "TextStreamer option"
  stopping_criteria :: bool

section \<open>The worker's state\<close>

text \<open>
  One call of \<^verbatim>\<open>from_pretrained\<close> and the state of the promise it returned. The only
  progress callback of the program is the republishing arrow function of \<^verbatim>\<open>load\<close>.
\<close>

datatype auto_class = AutoTokenizer | AutoModelForCausalLM
datatype callback = Republish
datatype settlement = Pending | Fulfilled | Rejected

record from_pretrained =
  auto_class :: auto_class
  model_id_arg :: string
  dtype_arg :: "string option"
  device_arg :: "string option"
  progress_callback :: "callback option"
  settled :: settlement

text \<open>The variables captured by the closure \<^verbatim>\<open>cb\<close> of \<^verbatim>\<open>generate\<close> (lines 115-116).\<close>

record closure =
  startTime :: "real option"
  numTokens :: nat

text \<open>
  An asynchronous function of the worker is suspended at one of its \<^verbatim>\<open>await\<close>s, or
  has returned, or has thrown (its promise is rejected; nobody awaits it).
\<close>

datatype task =
    Load_getInstance handle handle
  | Load_generate GenerateArgs
  | Generate_getInstance "Message list" handle handle
  | Generate_generate GenerateArgs closure
  | Returned
  | Thrown

text \<open>
  \<open>interrupted\<close> is the field of the single \<^verbatim>\<open>stopping_criteria\<close> object;
  \<open>model_id\<close>, \<open>tokenizer\<close> and \<open>model\<close> are the static fields of
  \<^verbatim>\<open>TextGenerationPipeline\<close> (\<open>None\<close> is \<^verbatim>\<open>undefined\<close>), the two promises
  being named by their index in \<open>promises\<close>; \<open>outbox\<close> is what has been posted to the
  host, oldest first. \<open>resets\<close> is a ghost counter of the calls of \<^verbatim>\<open>reset()\<close>;
  the program never reads it.
\<close>

record worker =
  interrupted :: bool
  resets :: nat
  model_id :: "string option"
  tokenizer :: "handle option"
  model :: "handle option"
  promises :: "from_pretrained list"
  tasks :: "task list"
  outbox :: "event list"

definition initial :: worker where
  "initial = \<lparr>interrupted = False, resets = 0, model_id = None, tokenizer = None,
     model = None, promises = [], tasks = [], outbox = []\<rparr>"

definition postMessage :: "event \<Rightarrow> worker \<Rightarrow> worker" where
  "postMessage ev w = w\<lparr>outbox := outbox w @ [ev]\<rparr>"

definition set_task :: "nat \<Rightarrow> task \<Rightarrow> worker \<Rightarrow> worker" where
  "set_task i t w = w\<lparr>tasks := (tasks w)[i := t]\<rparr>"

section \<open>InterruptableStoppingCriteria (lines 36-55)\<close>

text \<open>
  The methods of the one instance \<^verbatim>\<open>stopping_criteria\<close> (line 57);
  \<open>stopping_criteria_call\<close> is \<^verbatim>\<open>_call\<close>, which ignores its second argument.
\<close>

definition interrupt :: "worker \<Rightarrow> worker" where
  "interrupt w = w\<lparr>interrupted := True\<rparr>"

definition reset :: "worker \<Rightarrow> worker" where
  "reset w = w\<lparr>interrupted := False, resets := Suc (resets w)\<rparr>"

definition stopping_criteria_call :: "tensor \<Rightarrow> worker \<Rightarrow> bool list" where
  "stopping_criteria_call input_ids w = replicate (length input_ids) (interrupted w)"

section \<open>The streaming callback of generate (lines 115-130)\<close>

text \<open>
  One call of \<^verbatim>\<open>cb\<close>. \<open>now\<close> is what \<^verbatim>\<open>performance.now()\<close> returns during the call:
  the first call reads the clock for \<^verbatim>\<open>startTime\<close> and not for the rate, every later
  call reads it for the rate only. The result is the message posted and the closure's
  variables afterwards.
\<close>

definition cb :: "real \<Rightarrow> string \<Rightarrow> closure \<Rightarrow> event \<times> closure" where
  "cb now output c =
     (let start = (case startTime c of None \<Rightarrow> now | Some t \<Rightarrow> t);
          n = Suc (numTokens c);
          tps = (if 0 < numTokens c then Some (js_times (js_div (real n) (now - start)) 1000)
                 else None)
      in (Update output tps n, \<lparr>startTime = Some start, numTokens = n\<rparr>))"

text \<open>The fragments of one generation, each with the clock reading of its call, in order.\<close>

fun feed :: "(real \<times> string) list \<Rightarrow> closure \<Rightarrow> event list \<times> closure" where
  "feed [] c = ([], c)"
| "feed ((now, output) # xs) c =
     (let (ev, c1) = cb now output c; (evs, c2) = feed xs c1 in (ev # evs, c2))"

section \<open>TextGenerationPipeline.getInstance (lines 64-97)\<close>

text \<open>
  The state of the promise with handle \<open>h\<close>, and of \<^verbatim>\<open>Promise.all\<close> over the
  tokenizer's and the model's promise: rejected as soon as one is, fulfilled when both are.
\<close>

definition settlement_of :: "worker \<Rightarrow> handle \<Rightarrow> settlement" where
  "settlement_of w h = (if h < length (promises w) then settled (promises w ! h) else Pending)"

definition promise_all :: "worker \<Rightarrow> handle \<Rightarrow> handle \<Rightarrow> settlement" where
  "promise_all w t m =
     (if settlement_of w t = Rejected \<or> settlement_of w m = Rejected then Rejected
      else if settlement_of w t = Fulfilled \<and> settlement_of w m = Fulfilled then Fulfilled
      else Pending)"

text \<open>
  \<^verbatim>\<open>getInstance\<close> has no \<^verbatim>\<open>await\<close>: it runs to its end when called. It overwrites
  \<^verbatim>\<open>model_id\<close>, fills each of the two static fields only where it is still undefined
  (\<^verbatim>\<open>??=\<close>), and returns \<^verbatim>\<open>Promise.all\<close> of the two fields, here the two handles.
\<close>

definition getInstance :: "Config \<Rightarrow> callback option \<Rightarrow> worker \<Rightarrow> (handle \<times> handle) \<times> worker" where
  "getInstance config progress w =
     (let w1 = w\<lparr>model_id := Some (modelName config)\<rparr>;
          (t, w2) =
            (case tokenizer w1 of
               Some h \<Rightarrow> (h, w1)
             | None \<Rightarrow>
                 (length (promises w1),
                  w1\<lparr>promises := promises w1 @
                        [\<lparr>auto_class = AutoTokenizer, model_id_arg = modelName config,
                          dtype_arg = None, device_arg = None,
                          progress_callback = progress, settled = Pending\<rparr>],
                      tokenizer := Some (length (promises w1))\<rparr>));
          (m, w3) =
            (case model w2 of
               Some h \<Rightarrow> (h, w2)
             | None \<Rightarrow>
                 (length (promises w2),
                  w2\<lparr>promises := promises w2 @
                        [\<lparr>auto_class = AutoModelForCausalLM, model_id_arg = modelName config,
                          dtype_arg = Some (dtype config), device_arg = Some (device config),
                          progress_callback = progress, settled = Pending\<rparr>],
                      model := Some (length (promises w2))\<rparr>))
      in ((t, m), w3))"

section \<open>generate (lines 99-163)\<close>

text \<open>
  \<open>generate\<close> is the function up to its first \<^verbatim>\<open>await\<close> (line 104),
  \<open>generate_resumed\<close> runs from there to the second (line 146) once the pipeline is
  there, and \<open>generate_finished\<close> runs from the outputs of \<^verbatim>\<open>model.generate\<close> to the
  end. \<open>i\<close> is the index of the call among the worker's tasks.
\<close>

definition generate :: "Message list \<Rightarrow> Config \<Rightarrow> worker \<Rightarrow> worker" where
  "generate messages config w =
     (let ((t, m), w1) = getInstance config None w
      in w1\<lparr>tasks := tasks w1 @ [Generate_getInstance messages t m]\<rparr>)"

definition generate_resumed :: "PreTrainedTokenizer \<Rightarrow> nat \<Rightarrow> Message list \<Rightarrow> worker \<Rightarrow> worker" where
  "generate_resumed tk i messages w =
     (case apply_chat_template tk messages of
        Inl err \<Rightarrow> set_task i Thrown w
      | Inr encoding \<Rightarrow>
          if js_typeof encoding \<noteq> ''object'' then set_task i Returned w
          else
            let args = \<lparr>inputs = encoding, max_new_tokens = 512,
                        streamer = Some CallbackTextStreamer, stopping_criteria = True\<rparr>
            in set_task i (Generate_generate args \<lparr>startTime = None, numTokens = 0\<rparr>)
                 (postMessage Start w))"

definition generate_finished :: "PreTrainedTokenizer \<Rightarrow> nat \<Rightarrow> tensor \<Rightarrow> worker \<Rightarrow> worker" where
  "generate_finished tk i outputs w =
     set_task i Returned (postMessage (Complete (batch_decode tk outputs False)) w)"

section \<open>load (lines 165-198)\<close>

definition loading_text :: "Config \<Rightarrow> string" where
  "loading_text config =
     ''Loading model...'' @ [CHR 0x0A] @ modelName config @ '' ('' @ dtype config @ '') '' @
     device config"

definition load :: "Config \<Rightarrow> worker \<Rightarrow> worker" where
  "load config w =
     (let ((t, m), w1) = getInstance config (Some Republish) (postMessage (Loading (loading_text config)) w)
      in w1\<lparr>tasks := tasks w1 @ [Load_getInstance t m]\<rparr>)"

definition load_resumed :: "PreTrainedTokenizer \<Rightarrow> nat \<Rightarrow> worker \<Rightarrow> worker" where
  "load_resumed tk i w =
     set_task i
       (Load_generate \<lparr>inputs = BatchEncoding (call tk ''a''), max_new_tokens = 1,
                        streamer = None, stopping_criteria = False\<rparr>)
       (postMessage (Loading ''Compiling shaders and warming up model...'') w)"

definition load_finished :: "nat \<Rightarrow> worker \<Rightarrow> worker" where
  "load_finished i w = set_task i Returned (postMessage Ready w)"

section \<open>The message listener (lines 199-228)\<close>

text \<open>
  \<^verbatim>\<open>e.data\<close>, destructured at line 203. The host sends \<^verbatim>\<open>config\<close> with
  \<^verbatim>\<open>load\<close> and \<^verbatim>\<open>generate\<close> and \<^verbatim>\<open>data\<close> with \<^verbatim>\<open>generate\<close>; the listener
  reads neither for the other types.
\<close>

record message =
  type :: string
  data :: "Message list"
  config :: Config

text \<open>
  The \<^verbatim>\<open>switch\<close> inside \<^verbatim>\<open>try\<close>. \<open>Inl\<close> would be an exception thrown while the
  switch runs, with the state at that moment. \<^verbatim>\<open>load\<close> and \<^verbatim>\<open>generate\<close> are
  asynchronous and are called without \<^verbatim>\<open>await\<close>: the call runs the function up to its
  first \<^verbatim>\<open>await\<close> and hands back a promise, which the switch drops. There is no
  \<^verbatim>\<open>default\<close> case.
\<close>

definition switch :: "message \<Rightarrow> worker \<Rightarrow> (string \<times> worker) + worker" where
  "switch e w =
     (if type e = ''load'' then Inr (load (config e) w)
      else if type e = ''generate'' then Inr (generate (data e) (config e) (reset w))
      else if type e = ''interrupt'' then Inr (interrupt w)
      else if type e = ''reset'' then Inr (reset w)
      else Inr w)"

definition listener :: "message \<Rightarrow> worker \<Rightarrow> worker" where
  "listener e w =
     (case switch e w of
        Inr w1 \<Rightarrow> w1
      | Inl (error, w1) \<Rightarrow> postMessage (Error error) w1)"

section \<open>The environment: the library's loader, the engine and the host\<close>

text \<open>
  What can happen to the worker, one constructor per kind of event of the JavaScript
  event loop:
  \<^item> \<open>Host e\<close>: the host posts \<open>e\<close> and the listener runs;
  \<^item> \<open>Progress h x\<close>: the library calls, with \<open>x\<close>, the progress callback given to the
    \<^verbatim>\<open>from_pretrained\<close> call \<open>h\<close>;
  \<^item> \<open>Settle h ok\<close>: the promise of that call is fulfilled (\<open>ok\<close>) or rejected;
  \<^item> \<open>Resume i\<close>: task \<open>i\<close>, suspended on \<^verbatim>\<open>await getInstance\<close>, is resumed if
    the awaited promise has settled;
  \<^item> \<open>Decode i d\<close>: the engine runs one step of the \<^verbatim>\<open>model.generate\<close> that task
    \<open>i\<close> awaits.
\<close>

datatype decoding = Throws | Step tensor bool "token list" real

datatype input =
    Host message
  | Progress handle ProgressInfo
  | Settle handle bool
  | Resume nat
  | Decode nat decoding

definition progress_event :: "handle \<Rightarrow> ProgressInfo \<Rightarrow> worker \<Rightarrow> worker" where
  "progress_event h x w =
     (if h < length (promises w) then
        (case progress_callback (promises w ! h) of
           None \<Rightarrow> w
         | Some Republish \<Rightarrow> postMessage (Republished x) w)
      else w)"

definition settle :: "handle \<Rightarrow> bool \<Rightarrow> worker \<Rightarrow> worker" where
  "settle h ok w =
     (if h < length (promises w) \<and> settled (promises w ! h) = Pending then
        w\<lparr>promises := (promises w)
             [h := (promises w ! h)\<lparr>settled := (if ok then Fulfilled else Rejected)\<rparr>]\<rparr>
      else w)"

text \<open>
  A rejected \<^verbatim>\<open>await\<close> throws inside the asynchronous function, which has no
  \<^verbatim>\<open>try\<close> of its own: the function's promise is rejected and nothing is posted.
\<close>

definition resume :: "PreTrainedTokenizer \<Rightarrow> nat \<Rightarrow> worker \<Rightarrow> worker" where
  "resume tk i w =
     (if i < length (tasks w) then
        (case tasks w ! i of
           Load_getInstance t m \<Rightarrow>
             (case promise_all w t m of
                Pending \<Rightarrow> w
              | Rejected \<Rightarrow> set_task i Thrown w
              | Fulfilled \<Rightarrow> load_resumed tk i w)
         | Generate_getInstance messages t m \<Rightarrow>
             (case promise_all w t m of
                Pending \<Rightarrow> w
              | Rejected \<Rightarrow> set_task i Thrown w
              | Fulfilled \<Rightarrow> generate_resumed tk i messages w)
         | _ \<Rightarrow> w)
      else w)"

text \<open>\<^verbatim>\<open>Array.prototype.every\<close> with the identity as predicate.\<close>

definition every :: "bool list \<Rightarrow> bool" where
  "every bs = list_all (\<lambda>b. b) bs"

text \<open>
  Modelled from the spec: the decoding loop of \<^verbatim>\<open>model.generate\<close> and the
  \<^verbatim>\<open>TextStreamer\<close> base class belong to the library, which is not part of the
  repository. Section 6 of the specification gives their contract: the engine polls the
  stopping criteria at least once per generation step and calls the streamer once per
  emitted fragment, in generation order; section 8 tests the worker against a stub that
  checks the flag before every fragment. \<open>decoding_stops\<close> and \<open>model_generate\<close> are
  that stub. \<open>Step all_input_ids natural chunk now\<close> is one step of it: the engine
  evaluates the stopping criteria over the rows of \<open>all_input_ids\<close> (\<open>natural\<close> says
  that its own criteria, end of sequence or the length bound, stop every row; the
  worker's criteria take part where the call passed them); if every row stops,
  \<^verbatim>\<open>model.generate\<close> resolves with \<open>all_input_ids\<close>; otherwise the streamer, if the
  call passed one, decodes \<open>chunk\<close> under its \<^verbatim>\<open>skip_special_tokens\<close> option and hands
  the text to \<^verbatim>\<open>on_finalized_text\<close>, that is to \<^verbatim>\<open>cb\<close>, at clock reading \<open>now\<close>.
  The stub streams generated chunks only, never the prompt, which is what
  \<^verbatim>\<open>skip_prompt\<close> asks for. \<open>Throws\<close>: the engine fails and \<^verbatim>\<open>model.generate\<close>
  rejects.
\<close>

definition decoding_stops :: "GenerateArgs \<Rightarrow> tensor \<Rightarrow> bool \<Rightarrow> worker \<Rightarrow> bool" where
  "decoding_stops args all_input_ids natural w =
     (natural \<or> (stopping_criteria args \<and> every (stopping_criteria_call all_input_ids w)))"

definition model_generate :: "PreTrainedTokenizer \<Rightarrow> nat \<Rightarrow> decoding \<Rightarrow> worker \<Rightarrow> worker" where
  "model_generate tk i d w =
     (if i < length (tasks w) then
        (case tasks w ! i of
           Generate_generate args c \<Rightarrow>
             (case d of
                Throws \<Rightarrow> set_task i Thrown w
              | Step all_input_ids natural chunk now \<Rightarrow>
                  if decoding_stops args all_input_ids natural w
                  then generate_finished tk i all_input_ids w
                  else
                    (case streamer args of
                       None \<Rightarrow> w
                     | Some s \<Rightarrow>
                         let (ev, c1) = cb now (decode tk chunk (skip_special_tokens s)) c
                         in set_task i (Generate_generate args c1) (postMessage ev w)))
         | Load_generate args \<Rightarrow>
             (case d of
                Throws \<Rightarrow> set_task i Thrown w
              | Step all_input_ids natural chunk now \<Rightarrow>
                  if decoding_stops args all_input_ids natural w
                  then load_finished i w
                  else w)
         | _ \<Rightarrow> w)
      else w)"

fun step :: "PreTrainedTokenizer \<Rightarrow> input \<Rightarrow> worker \<Rightarrow> worker" where
  "step tk (Host e) w = listener e w"
| "step tk (Progress h x) w = progress_event h x w"
| "step tk (Settle h ok) w = settle h ok w"
| "step tk (Resume i) w = resume tk i w"
| "step tk (Decode i d) w = model_generate tk i d w"

fun run :: "PreTrainedTokenizer \<Rightarrow> input list \<Rightarrow> worker \<Rightarrow> worker" where
  "run tk [] w = w"
| "run tk (x # xs) w = run tk xs (step tk x w)"

section \<open>Runs of one command\<close>

text \<open>
  While \<^verbatim>\<open>load\<close> waits for the pipeline, the library reports progress and settles
  the promises. \<open>loader_input w x\<close>: \<open>x\<close> is such an input, and a progress report
  goes to a call that was given the republishing callback. \<open>republished\<close> collects the
  payloads of the progress reports of a run, in order.
\<close>

fun loader_input :: "worker \<Rightarrow> input \<Rightarrow> bool" where
  "loader_input w (Progress h x) =
     (h < length (promises w) \<and> progress_callback (promises w ! h) = Some Republish)"
| "loader_input w (Settle h ok) = True"
| "loader_input w _ = False"

fun republished :: "input list \<Rightarrow> event list" where
  "republished [] = []"
| "republished (Progress h x # xs) = Republished x # republished xs"
| "republished (_ # xs) = republished xs"

text \<open>The inputs of a run: promises settling, and decoding steps of task \<open>i\<close> that its own
  criteria do not stop.\<close>

definition settles :: "(handle \<times> bool) list \<Rightarrow> input list" where
  "settles ss = map (\<lambda>(h, ok). Settle h ok) ss"

definition decodes :: "nat \<Rightarrow> (tensor \<times> token list \<times> real) list \<Rightarrow> input list" where
  "decodes i steps = map (\<lambda>(ids, chunk, now). Decode i (Step ids False chunk now)) steps"

definition fragments :: "PreTrainedTokenizer \<Rightarrow> bool \<Rightarrow> (tensor \<times> token list \<times> real) list \<Rightarrow> (real \<times> string) list" where
  "fragments tk skip steps = map (\<lambda>(ids, chunk, now). (now, decode tk chunk skip)) steps"

section \<open>Stubs for the scenarios of section 8 of the specification\<close>

text \<open>
  A tokenizer over a vocabulary of six tokens, three of them special, whose chat template
  yields a \<^verbatim>\<open>BatchEncoding\<close>; a second one whose chat template yields a string, as
  \<^verbatim>\<open>apply_chat_template\<close> does when it is asked not to tokenize.
\<close>

fun vocabulary :: "token \<Rightarrow> string" where
  "vocabulary t =
     (if t = 0 then ''<|end|>'' else if t = 1 then ''<|user|>'' else if t = 2 then ''hi''
      else if t = 3 then ''<|assistant|>'' else if t = 4 then ''Hel''
      else if t = 5 then ''lo'' else ''a'')"

definition special :: "token \<Rightarrow> bool" where
  "special t = (t = 0 \<or> t = 1 \<or> t = 3)"

definition stub_decode :: "token list \<Rightarrow> bool \<Rightarrow> string" where
  "stub_decode ids skip =
     concat (map vocabulary (if skip then filter (\<lambda>t. \<not> special t) ids else ids))"

definition stub_tokenizer :: PreTrainedTokenizer where
  "stub_tokenizer =
     \<lparr>apply_chat_template = (\<lambda>messages. Inr (BatchEncoding [[1, 2, 3]])),
      decode = stub_decode,
      batch_decode = (\<lambda>t skip. map (\<lambda>ids. stub_decode ids skip) t),
      call = (\<lambda>text. [[6]])\<rparr>"

definition text_tokenizer :: PreTrainedTokenizer where
  "text_tokenizer =
     stub_tokenizer\<lparr>apply_chat_template := (\<lambda>messages. Inr (Text ''<|user|>hi<|assistant|>''))\<rparr>"

definition llama :: Config where
  "llama = \<lparr>modelName = ''onnx-community/Llama-3.2-3B-Instruct-onnx-web'',
             dtype = ''q4f16'', device = ''webgpu''\<rparr>"

definition phi :: Config where
  "phi = \<lparr>modelName = ''Xenova/Phi-3-mini-4k-instruct'', dtype = ''q4'', device = ''webgpu''\<rparr>"

definition hi :: "Message list" where
  "hi = [\<lparr>role = ''user'', content = ''hi''\<rparr>]"

definition command :: "string \<Rightarrow> Config \<Rightarrow> message" where
  "command ty c = \<lparr>type = ty, data = hi, config = c\<rparr>"

text \<open>
  The progress reports of one artifact; the worker after a first \<^verbatim>\<open>load\<close> with two
  artifacts and its warm-up; the worker after a first \<^verbatim>\<open>load\<close> whose tokenizer
  could not be fetched; the worker in the middle of a generation, one fragment streamed.
\<close>

definition artifact :: "handle \<Rightarrow> string \<Rightarrow> input list" where
  "artifact h f =
     [Progress h \<lparr>progress_status = ''initiate'', progress_file = f\<rparr>,
      Progress h \<lparr>progress_status = ''progress'', progress_file = f\<rparr>,
      Progress h \<lparr>progress_status = ''done'', progress_file = f\<rparr>]"

definition loaded :: worker where
  "loaded = run stub_tokenizer
     ([Host (command ''load'' llama)] @ artifact 0 ''tokenizer.json'' @ [Settle 0 True] @
      artifact 1 ''model.onnx'' @ [Settle 1 True] @
      [Resume 0, Decode 0 (Step [[6]] True [] 0)]) initial"

definition poisoned :: worker where
  "poisoned = run stub_tokenizer [Host (command ''load'' llama), Settle 0 False] initial"

definition streaming :: worker where
  "streaming = run stub_tokenizer
     [Host (command ''generate'' llama), Resume 1, Decode 1 (Step [[1, 2, 3]] False [4] 10)]
     loaded"

section \<open>The streaming callback\<close>

lemma feed_Cons:
  "fst (feed ((now, out) # xs) c) = fst (cb now out c) # fst (feed xs (snd (cb now out c)))"
  "snd (feed ((now, out) # xs) c) = snd (feed xs (snd (cb now out c)))"
  by (simp_all add: split_def Let_def)

lemma feed_length: "length (fst (feed xs c)) = length xs"
  by (induction xs arbitrary: c) (auto simp: split_def Let_def)

text \<open>The event of the fragment at position \<open>i\<close>, from any state of the closure.\<close>

lemma feed_nth:
  "i < length xs \<Longrightarrow>
   fst (feed xs c) ! i =
     Update (snd (xs ! i))
       (if 0 < numTokens c + i
        then Some (js_times (js_div (real (Suc (numTokens c + i)))
               (fst (xs ! i) - (case startTime c of None \<Rightarrow> fst (xs ! 0) | Some t \<Rightarrow> t))) 1000)
        else None)
       (Suc (numTokens c + i))"
proof (induction xs arbitrary: c i)
  case Nil
  then show ?case by simp
next
  case (Cons x xs)
  obtain now out where x: "x = (now, out)" by (cases x)
  show ?case
  proof (cases i)
    case 0
    then show ?thesis
      by (simp add: x feed_Cons cb_def Let_def split: option.split del: feed.simps)
  next
    case (Suc j)
    with Cons.prems have j: "j < length xs" by simp
    show ?thesis
      unfolding x feed_Cons Suc
      by (simp add: Cons.IH [OF j] cb_def Let_def split: option.split del: feed.simps)
  qed
qed

lemma feed_take: "fst (feed (take k xs) c) = take k (fst (feed xs c))"
proof (induction xs arbitrary: c k)
  case Nil
  then show ?case by simp
next
  case (Cons x xs)
  obtain now out where x: "x = (now, out)" by (cases x)
  show ?case
  proof (cases k)
    case 0
    then show ?thesis by simp
  next
    case (Suc j)
    then show ?thesis
      by (simp add: x feed_Cons Cons.IH del: feed.simps)
  qed
qed

text \<open>
  Claim C3. Fed N fragments from a fresh closure, the callback posts N update events,
  one per fragment and in arrival order. The i-th event (counted from 1; position
  \<open>i - 1\<close> of the list) carries the i-th fragment and \<^verbatim>\<open>numTokens\<close> = i. Its
  \<^verbatim>\<open>tps\<close> is undefined exactly for the first event; for every later one it is
  \<^verbatim>\<open>numTokens\<close> divided by the milliseconds between the clock reading of the first
  fragment and the reading of this one, times 1000, in JavaScript's division. Nothing is
  buffered: after the first k fragments exactly the first k events have been posted.
\<close>

theorem cb_counts_fragments:
  "length (fst (feed xs \<lparr>startTime = None, numTokens = 0\<rparr>)) = length xs \<and>
   (\<forall>i<length xs.
      fst (feed xs \<lparr>startTime = None, numTokens = 0\<rparr>) ! i =
        Update (snd (xs ! i))
          (if i = 0 then None
           else Some (js_times (js_div (real (Suc i)) (fst (xs ! i) - fst (xs ! 0))) 1000))
          (Suc i)) \<and>
   (\<forall>k\<le>length xs.
      fst (feed (take k xs) \<lparr>startTime = None, numTokens = 0\<rparr>) =
        take k (fst (feed xs \<lparr>startTime = None, numTokens = 0\<rparr>)))"
  by (simp add: feed_length feed_nth feed_take)

theorem cb_counts_fragments_witness:
  "(1::nat) < length [(10::real, ''Hel''), (15, ''lo'')] \<and>
   fst (feed [(10, ''Hel''), (15, ''lo'')] \<lparr>startTime = None, numTokens = 0\<rparr>) ! 1 =
     Update ''lo'' (Some (Finite 400)) 2 \<and>
   fst (feed (take 1 [(10, ''Hel''), (15, ''lo'')]) \<lparr>startTime = None, numTokens = 0\<rparr>) =
     [Update ''Hel'' None 1]"
proof -
  have "\<forall>i<length [(10::real, ''Hel''), (15, ''lo'')].
      fst (feed [(10, ''Hel''), (15, ''lo'')] \<lparr>startTime = None, numTokens = 0\<rparr>) ! i =
        Update (snd ([(10::real, ''Hel''), (15, ''lo'')] ! i))
          (if i = 0 then None
           else Some (js_times (js_div (real (Suc i))
                  (fst ([(10::real, ''Hel''), (15, ''lo'')] ! i) -
                   fst ([(10::real, ''Hel''), (15, ''lo'')] ! 0))) 1000))
          (Suc i)"
    using cb_counts_fragments [of "[(10, ''Hel''), (15, ''lo'')]"] by blast
  then have "fst (feed [(10, ''Hel''), (15, ''lo'')] \<lparr>startTime = None, numTokens = 0\<rparr>) ! 1 =
      Update ''lo'' (Some (Finite 400)) 2"
    by (simp add: js_div_def)
  then show ?thesis
    by (simp add: cb_def js_div_def)
qed

section \<open>The message listener\<close>

lemma switch_never_throws: "\<exists>w1. switch e w = Inr w1"
  by (simp add: switch_def)

text \<open>
  Claim C7. Handling a \<^verbatim>\<open>generate\<close> command calls \<^verbatim>\<open>reset()\<close> exactly once, and
  before the session starts: the session is started from the state that \<^verbatim>\<open>reset()\<close>
  leaves, so the flag is false afterwards whatever it was before. A \<^verbatim>\<open>reset\<close> command
  resets the flag and does nothing else. An \<^verbatim>\<open>interrupt\<close> command sets the flag and
  does nothing else; in particular it posts nothing.
\<close>

theorem listener_resets_once:
  "listener \<lparr>type = ''generate'', data = d, config = c\<rparr> w = generate d c (reset w) \<and>
   resets (listener \<lparr>type = ''generate'', data = d, config = c\<rparr> w) = Suc (resets w) \<and>
   interrupted (listener \<lparr>type = ''generate'', data = d, config = c\<rparr> w) = False \<and>
   listener \<lparr>type = ''reset'', data = d, config = c\<rparr> w =
     w\<lparr>interrupted := False, resets := Suc (resets w)\<rparr> \<and>
   listener \<lparr>type = ''interrupt'', data = d, config = c\<rparr> w = w\<lparr>interrupted := True\<rparr>"
  by (simp add: listener_def switch_def generate_def getInstance_def reset_def interrupt_def
      split_def Let_def split: option.split)

text \<open>
  Claim C10. A message whose type is none of \<^verbatim>\<open>load\<close>, \<^verbatim>\<open>generate\<close>,
  \<^verbatim>\<open>interrupt\<close> and \<^verbatim>\<open>reset\<close> leaves the worker as it was: no variable changes
  and nothing is posted, no \<^verbatim>\<open>error\<close> event either.
\<close>

theorem unknown_command_ignored:
  "type e \<notin> {''load'', ''generate'', ''interrupt'', ''reset''} \<Longrightarrow> listener e w = w"
  by (simp add: listener_def switch_def)

theorem unknown_command_ignored_witness:
  "type (command ''unload'' llama) \<notin> {''load'', ''generate'', ''interrupt'', ''reset''} \<and>
   listener (command ''unload'' llama) initial = initial"
proof -
  have h: "type (command ''unload'' llama) \<notin> {''load'', ''generate'', ''interrupt'', ''reset''}"
    by (simp add: command_def)
  show ?thesis
    using h unknown_command_ignored [OF h, of initial] by simp
qed

section \<open>What each operation leaves alone\<close>

lemma run_append: "run tk (xs @ ys) w = run tk ys (run tk xs w)"
  by (induction xs arbitrary: w) simp_all

lemma postMessage_fields:
  "interrupted (postMessage ev w) = interrupted w"
  "resets (postMessage ev w) = resets w"
  "model_id (postMessage ev w) = model_id w"
  "tokenizer (postMessage ev w) = tokenizer w"
  "model (postMessage ev w) = model w"
  "promises (postMessage ev w) = promises w"
  "tasks (postMessage ev w) = tasks w"
  "outbox (postMessage ev w) = outbox w @ [ev]"
  by (simp_all add: postMessage_def)

lemma set_task_fields:
  "interrupted (set_task i t w) = interrupted w"
  "resets (set_task i t w) = resets w"
  "model_id (set_task i t w) = model_id w"
  "tokenizer (set_task i t w) = tokenizer w"
  "model (set_task i t w) = model w"
  "promises (set_task i t w) = promises w"
  "tasks (set_task i t w) = (tasks w)[i := t]"
  "outbox (set_task i t w) = outbox w"
  by (simp_all add: set_task_def)

lemma getInstance_fields:
  "interrupted (snd (getInstance c p w)) = interrupted w"
  "resets (snd (getInstance c p w)) = resets w"
  "tasks (snd (getInstance c p w)) = tasks w"
  "outbox (snd (getInstance c p w)) = outbox w"
  "model_id (snd (getInstance c p w)) = Some (modelName c)"
  by (simp_all add: getInstance_def Let_def split_def split: option.split)

lemma getInstance_fills:
  "tokenizer (snd (getInstance c p w)) = Some (fst (fst (getInstance c p w)))"
  "model (snd (getInstance c p w)) = Some (snd (fst (getInstance c p w)))"
  by (simp_all add: getInstance_def Let_def split_def split: option.split)

lemma getInstance_cached:
  "tokenizer w = Some t \<Longrightarrow> model w = Some m \<Longrightarrow>
   getInstance c p w = ((t, m), w\<lparr>model_id := Some (modelName c)\<rparr>)"
  by (simp add: getInstance_def)

lemma progress_event_pool:
  "tokenizer (progress_event h x w) = tokenizer w"
  "model (progress_event h x w) = model w"
  "promises (progress_event h x w) = promises w"
  "tasks (progress_event h x w) = tasks w"
  "interrupted (progress_event h x w) = interrupted w"
  by (simp_all add: progress_event_def postMessage_fields split: option.split callback.split)

lemma settle_pool:
  "tokenizer (settle h ok w) = tokenizer w"
  "model (settle h ok w) = model w"
  "length (promises (settle h ok w)) = length (promises w)"
  "tasks (settle h ok w) = tasks w"
  "outbox (settle h ok w) = outbox w"
  "interrupted (settle h ok w) = interrupted w"
  by (simp_all add: settle_def)

lemma resume_pool:
  "tokenizer (resume tk i w) = tokenizer w"
  "model (resume tk i w) = model w"
  "promises (resume tk i w) = promises w"
  "interrupted (resume tk i w) = interrupted w"
  by (simp_all add: resume_def load_resumed_def generate_resumed_def postMessage_fields
      set_task_fields Let_def split: task.split settlement.split sum.split)

lemma model_generate_pool:
  "tokenizer (model_generate tk i d w) = tokenizer w"
  "model (model_generate tk i d w) = model w"
  "promises (model_generate tk i d w) = promises w"
  "interrupted (model_generate tk i d w) = interrupted w"
  by (simp_all add: model_generate_def generate_finished_def load_finished_def
      postMessage_fields set_task_fields Let_def split_def
      split: task.split decoding.split option.split)

text \<open>Once both static fields are set, no input sets them again or starts a load.\<close>

lemma listener_pool:
  assumes "tokenizer w = Some t" "model w = Some m"
  shows "tokenizer (listener e w) = Some t" "model (listener e w) = Some m"
    "promises (listener e w) = promises w"
  using assms
  by (simp_all add: listener_def switch_def load_def generate_def reset_def interrupt_def
      getInstance_cached postMessage_fields)

lemma step_pool:
  assumes "tokenizer w = Some t" "model w = Some m"
  shows "tokenizer (step tk x w) = Some t" "model (step tk x w) = Some m"
    "length (promises (step tk x w)) = length (promises w)"
  using assms
  by (cases x; simp add: listener_pool progress_event_pool settle_pool resume_pool
      model_generate_pool)+

lemma run_pool:
  assumes "tokenizer w = Some t" "model w = Some m"
  shows "tokenizer (run tk xs w) = Some t \<and> model (run tk xs w) = Some m \<and>
    length (promises (run tk xs w)) = length (promises w)"
  using assms
proof (induction xs arbitrary: w)
  case Nil
  then show ?case by simp
next
  case (Cons x xs)
  from Cons.IH [OF step_pool(1,2) [OF Cons.prems]] step_pool(3) [OF Cons.prems]
  show ?case by simp
qed

section \<open>Evaluating the scenarios\<close>

lemmas worker_defs =
  listener_def switch_def load_def generate_def reset_def interrupt_def getInstance_def
  postMessage_def set_task_def resume_def load_resumed_def generate_resumed_def
  generate_finished_def load_finished_def model_generate_def decoding_stops_def every_def
  stopping_criteria_call_def progress_event_def settle_def promise_all_def settlement_of_def
  cb_def CallbackTextStreamer_def Let_def split_def

lemmas stub_defs =
  stub_tokenizer_def text_tokenizer_def stub_decode_def special_def command_def llama_def
  phi_def hi_def initial_def artifact_def

lemma loaded_eq:
  "loaded =
     \<lparr>interrupted = False, resets = 0, model_id = Some (modelName llama),
      tokenizer = Some 0, model = Some 1,
      promises =
        [\<lparr>auto_class = AutoTokenizer, model_id_arg = modelName llama, dtype_arg = None,
          device_arg = None, progress_callback = Some Republish, settled = Fulfilled\<rparr>,
         \<lparr>auto_class = AutoModelForCausalLM, model_id_arg = modelName llama,
          dtype_arg = Some ''q4f16'', device_arg = Some ''webgpu'',
          progress_callback = Some Republish, settled = Fulfilled\<rparr>],
      tasks = [Returned],
      outbox =
        [Loading (loading_text llama)] @ republished (artifact 0 ''tokenizer.json'') @
        republished (artifact 1 ''model.onnx'') @
        [Loading ''Compiling shaders and warming up model...'', Ready]\<rparr>"
  by (simp add: loaded_def worker_defs stub_defs)

lemma streaming_eq:
  "streaming =
     loaded\<lparr>resets := 1,
       tasks := [Returned,
         Generate_generate
           \<lparr>inputs = BatchEncoding [[1, 2, 3]], max_new_tokens = 512,
            streamer = Some \<lparr>skip_prompt = True, skip_special_tokens = True\<rparr>,
            stopping_criteria = True\<rparr>
           \<lparr>startTime = Some 10, numTokens = 1\<rparr>],
       outbox := outbox loaded @ [Start, Update ''Hel'' None 1]\<rparr>"
  by (simp add: streaming_def loaded_eq worker_defs stub_defs)

section \<open>The model singleton\<close>

text \<open>
  Claim C4 as stated does not hold: the cache is not keyed by the Config. After an
  acquisition for the Llama model, an acquisition for the Phi model, a different Config,
  hands back the two promises of the Llama model. No \<^verbatim>\<open>from_pretrained\<close> is called
  for Phi, and the progress callback of the second acquisition is not registered.
\<close>

theorem cache_not_keyed_by_config:
  "modelName phi \<noteq> modelName llama \<and>
   fst (getInstance phi (Some Republish) (snd (getInstance llama None initial))) =
     fst (getInstance llama None initial) \<and>
   map model_id_arg
     (promises (snd (getInstance phi (Some Republish) (snd (getInstance llama None initial))))) =
     [modelName llama, modelName llama] \<and>
   map progress_callback
     (promises (snd (getInstance phi (Some Republish) (snd (getInstance llama None initial))))) =
     [None, None]"
  by (simp add: worker_defs stub_defs)

text \<open>
  Claim C4, amended. The model resource is created at most once per worker, whatever
  the Config: the cache is one pair of static fields. Once \<^verbatim>\<open>getInstance\<close> has been
  called, whatever happens next, every later call, with an equal or a different Config,
  while the load is in flight or after it has settled, returns the same two promises
  and changes nothing but \<^verbatim>\<open>model_id\<close>: it starts no load and does not register
  its progress callback. No load is ever started again.
\<close>

theorem getInstance_singleton:
  "getInstance c2 p2 (run tk xs (snd (getInstance c1 p1 w))) =
     (fst (getInstance c1 p1 w),
      (run tk xs (snd (getInstance c1 p1 w)))\<lparr>model_id := Some (modelName c2)\<rparr>) \<and>
   length (promises (run tk xs (snd (getInstance c1 p1 w)))) =
     length (promises (snd (getInstance c1 p1 w)))"
  using run_pool [OF getInstance_fills, of tk xs c1 p1 w]
  by (simp add: getInstance_cached)

text \<open>A rejected promise stays rejected, and stays in its static field.\<close>

lemma settlement_of_promises:
  "promises w' = promises w \<Longrightarrow> settlement_of w' h = settlement_of w h"
  by (simp add: settlement_of_def)

lemma promise_all_promises:
  "promises w' = promises w \<Longrightarrow> promise_all w' t m = promise_all w t m"
  by (simp add: promise_all_def settlement_of_def)

lemma settlement_Rejected:
  assumes "settlement_of w h = Rejected"
  shows "h < length (promises w)" "settled (promises w ! h) = Rejected"
  using assms by (simp_all add: settlement_of_def split: if_splits)

lemma settle_keeps_Rejected:
  assumes "settlement_of w h = Rejected"
  shows "settlement_of (settle h' ok w) h = Rejected"
proof (cases "h' = h")
  case True
  then show ?thesis
    using settlement_Rejected [OF assms] assms by (simp add: settle_def)
next
  case False
  then show ?thesis
    using settlement_Rejected [OF assms] by (simp add: settle_def settlement_of_def)
qed

lemma step_keeps_Rejected:
  assumes "settlement_of w h = Rejected" "tokenizer w = Some t" "model w = Some m"
  shows "settlement_of (step tk x w) h = Rejected"
proof (cases x)
  case (Settle h' ok)
  then show ?thesis by (simp add: settle_keeps_Rejected [OF assms(1)])
next
  case (Host e)
  from settlement_of_promises [OF listener_pool(3) [OF assms(2,3)]] assms(1)
  show ?thesis by (simp add: Host)
next
  case (Progress h' p)
  from settlement_of_promises [OF progress_event_pool(3)] assms(1)
  show ?thesis by (simp add: Progress)
next
  case (Resume i)
  from settlement_of_promises [OF resume_pool(3)] assms(1)
  show ?thesis by (simp add: Resume)
next
  case (Decode i d)
  from settlement_of_promises [OF model_generate_pool(3)] assms(1)
  show ?thesis by (simp add: Decode)
qed

lemma promise_all_Rejected_iff:
  "promise_all w t m = Rejected \<longleftrightarrow> settlement_of w t = Rejected \<or> settlement_of w m = Rejected"
  by (simp add: promise_all_def)

lemma run_keeps_Rejected:
  assumes "tokenizer w = Some t" "model w = Some m" "promise_all w t m = Rejected"
  shows "promise_all (run tk xs w) t m = Rejected"
  using assms
proof (induction xs arbitrary: w)
  case Nil
  then show ?case by simp
next
  case (Cons x xs)
  from Cons.prems(3) have "settlement_of w t = Rejected \<or> settlement_of w m = Rejected"
    by (simp add: promise_all_Rejected_iff)
  then have "promise_all (step tk x w) t m = Rejected"
  proof
    assume "settlement_of w t = Rejected"
    from step_keeps_Rejected [OF this Cons.prems(1,2)]
    show ?thesis by (simp add: promise_all_Rejected_iff)
  next
    assume "settlement_of w m = Rejected"
    from step_keeps_Rejected [OF this Cons.prems(1,2)]
    show ?thesis by (simp add: promise_all_Rejected_iff)
  qed
  from Cons.IH [OF step_pool(1,2) [OF Cons.prems(1,2), of tk x] this]
  show ?case by simp
qed

lemma load_cached:
  assumes "tokenizer w = Some t" "model w = Some m"
  shows "load c w = w\<lparr>model_id := Some (modelName c),
     tasks := tasks w @ [Load_getInstance t m],
     outbox := outbox w @ [Loading (loading_text c)]\<rparr>"
  using assms by (simp add: load_def postMessage_def getInstance_cached)

text \<open>
  Claim C5 as stated does not hold. The tokenizer cannot be fetched and the first
  \<^verbatim>\<open>load\<close> fails; a second \<^verbatim>\<open>load\<close> with the same Config calls
  \<^verbatim>\<open>from_pretrained\<close> for nothing, so that the only two promises are those of the first
  attempt, and fails on the rejection kept in the static field. The host has received the
  two \<^verbatim>\<open>loading\<close> events and no \<^verbatim>\<open>error\<close> event.
\<close>

theorem rejected_load_not_retried:
  "map settled (promises (run stub_tokenizer
     [Host (command ''load'' llama), Settle 0 False, Resume 0,
      Host (command ''load'' llama), Resume 1] initial)) = [Rejected, Pending] \<and>
   tasks (run stub_tokenizer
     [Host (command ''load'' llama), Settle 0 False, Resume 0,
      Host (command ''load'' llama), Resume 1] initial) = [Thrown, Thrown] \<and>
   outbox (run stub_tokenizer
     [Host (command ''load'' llama), Settle 0 False, Resume 0,
      Host (command ''load'' llama), Resume 1] initial) =
     [Loading (loading_text llama), Loading (loading_text llama)]"
  by (simp add: worker_defs stub_defs)

text \<open>
  Claim C5, amended. Once an acquisition has failed, the rejected promise stays in the
  pool for as long as the worker lives: whatever happens in between, a later \<^verbatim>\<open>load\<close>,
  with the same or another Config, starts no load attempt (the promises are those there
  were, none is added) and its own call fails on the earlier rejection.
\<close>

theorem rejected_load_is_kept:
  assumes "tokenizer w = Some t" "model w = Some m" "promise_all w t m = Rejected"
    and "type e = ''load''"
  shows "promises (run tk (xs @ [Host e, Resume (length (tasks (run tk xs w)))]) w) =
           promises (run tk xs w) \<and>
         length (promises (run tk xs w)) = length (promises w) \<and>
         tasks (run tk (xs @ [Host e, Resume (length (tasks (run tk xs w)))]) w) =
           tasks (run tk xs w) @ [Thrown]"
proof -
  let ?w = "run tk xs w"
  from run_pool [OF assms(1,2), of tk xs]
  have pool: "tokenizer ?w = Some t" "model ?w = Some m"
    and len: "length (promises ?w) = length (promises w)" by simp_all
  have rej: "promise_all ?w t m = Rejected" by (rule run_keeps_Rejected [OF assms(1-3)])
  have l: "listener e ?w = load (config e) ?w"
    using assms(4) by (simp add: listener_def switch_def)
  have t: "tasks (load (config e) ?w) = tasks ?w @ [Load_getInstance t m]"
    and p: "promises (load (config e) ?w) = promises ?w"
    by (simp_all add: load_cached [OF pool])
  from promise_all_promises [OF p] rej
  have rej': "promise_all (load (config e) ?w) t m = Rejected" by simp
  have r: "resume tk (length (tasks ?w)) (load (config e) ?w) =
      set_task (length (tasks ?w)) Thrown (load (config e) ?w)"
    using rej' by (simp add: resume_def t)
  have final: "run tk (xs @ [Host e, Resume (length (tasks ?w))]) w =
      set_task (length (tasks ?w)) Thrown (load (config e) ?w)"
    by (simp add: run_append l r)
  show ?thesis
    unfolding final by (simp add: set_task_fields t p len)
qed

theorem rejected_load_is_kept_witness:
  "tokenizer poisoned = Some 0 \<and> model poisoned = Some 1 \<and>
   promise_all poisoned 0 1 = Rejected \<and> type (command ''load'' llama) = ''load'' \<and>
   length (promises (run stub_tokenizer [Resume 0, Host (command ''load'' llama), Resume 1] poisoned)) = 2 \<and>
   tasks (run stub_tokenizer [Resume 0, Host (command ''load'' llama), Resume 1] poisoned) =
     [Thrown, Thrown]"
proof -
  have h: "tokenizer poisoned = Some 0" "model poisoned = Some 1"
    "promise_all poisoned 0 1 = Rejected" "type (command ''load'' llama) = ''load''"
    by (simp_all add: poisoned_def worker_defs stub_defs)
  from rejected_load_is_kept [OF h, of stub_tokenizer "[Resume 0]"]
  show ?thesis
    by (simp add: poisoned_def worker_defs stub_defs)
qed

section \<open>The decoding loop and the loader, step by step\<close>

lemma decoding_continues:
  "\<not> interrupted w \<Longrightarrow> ids \<noteq> [] \<Longrightarrow> \<not> decoding_stops args ids False w"
  by (cases ids) (simp_all add: decoding_stops_def every_def stopping_criteria_call_def)

lemma decoding_interrupted:
  "interrupted w \<Longrightarrow> stopping_criteria args \<Longrightarrow> decoding_stops args ids natural w"
  by (simp add: decoding_stops_def every_def stopping_criteria_call_def list_all_iff)

text \<open>
  While the flag is down, the steps that the engine's own criteria do not stop stream
  their fragments through \<open>cb\<close>, one event each, and leave everything else alone.
\<close>

lemma decode_fragments:
  assumes "i < length (tasks w)" "tasks w ! i = Generate_generate args c"
    and "streamer args = Some s" "\<not> interrupted w" "\<forall>x\<in>set steps. fst x \<noteq> []"
  shows "run tk (decodes i steps) w =
         w\<lparr>tasks := (tasks w)
              [i := Generate_generate args (snd (feed (fragments tk (skip_special_tokens s) steps) c))],
           outbox := outbox w @ fst (feed (fragments tk (skip_special_tokens s) steps) c)\<rparr>"
  using assms
proof (induction steps arbitrary: w c)
  case Nil
  then show ?case by (simp add: decodes_def fragments_def list_update_same_conv [THEN iffD2])
next
  case (Cons x steps)
  obtain ids chunk now where x: "x = (ids, chunk, now)" by (cases x)
  let ?text = "decode tk chunk (skip_special_tokens s)"
  let ?w1 = "set_task i (Generate_generate args (snd (cb now ?text c)))
               (postMessage (fst (cb now ?text c)) w)"
  from Cons.prems x have ids: "ids \<noteq> []" by simp
  have step1: "model_generate tk i (Step ids False chunk now) w = ?w1"
    using Cons.prems(1-4) decoding_continues [OF Cons.prems(4) ids, of args]
    by (simp add: model_generate_def split_def Let_def)
  have pre: "i < length (tasks ?w1)" "tasks ?w1 ! i = Generate_generate args (snd (cb now ?text c))"
    "\<not> interrupted ?w1" "\<forall>x\<in>set steps. fst x \<noteq> []"
    using Cons.prems by (simp_all add: set_task_def postMessage_def)
  have unfold: "run tk (decodes i ((ids, chunk, now) # steps)) w = run tk (decodes i steps) ?w1"
    by (simp add: decodes_def step1)
  show ?case
    unfolding x unfold
    apply (subst Cons.IH [OF pre(1,2) Cons.prems(3) pre(3,4)])
    apply (simp add: set_task_def postMessage_def fragments_def feed_Cons del: feed.simps)
    done
qed

lemma decode_natural_end:
  "i < length (tasks w) \<Longrightarrow> tasks w ! i = Generate_generate args c \<Longrightarrow>
   model_generate tk i (Step ids True chunk now) w = generate_finished tk i ids w"
  by (simp add: model_generate_def decoding_stops_def)

lemma decode_interrupted_end:
  "i < length (tasks w) \<Longrightarrow> tasks w ! i = Generate_generate args c \<Longrightarrow>
   stopping_criteria args \<Longrightarrow>
   model_generate tk i (Step ids natural chunk now) (interrupt w) =
     generate_finished tk i ids (interrupt w)"
  by (simp add: model_generate_def decoding_interrupted interrupt_def)

lemma warmup_idles:
  assumes "i < length (tasks w)" "tasks w ! i = Load_generate args" "\<not> stopping_criteria args"
  shows "run tk (decodes i steps) w = w"
proof (induction steps)
  case Nil
  then show ?case by (simp add: decodes_def)
next
  case (Cons x steps)
  obtain ids chunk now where x: "x = (ids, chunk, now)" by (cases x)
  have "model_generate tk i (Step ids False chunk now) w = w"
    using assms by (simp add: model_generate_def decoding_stops_def)
  with Cons show ?case by (simp add: decodes_def x)
qed

lemma warmup_end:
  "i < length (tasks w) \<Longrightarrow> tasks w ! i = Load_generate args \<Longrightarrow>
   model_generate tk i (Step ids True chunk now) w = load_finished i w"
  by (simp add: model_generate_def decoding_stops_def)

text \<open>What the loader's inputs do: they republish, settle promises, and nothing else.\<close>

lemma loader_input_settle: "loader_input (settle h ok w) y = loader_input w y"
  by (cases y) (auto simp: settle_def nth_list_update)

lemma loader_input_update:
  "loader_input (w\<lparr>outbox := ob\<rparr>) y = loader_input w y"
  "loader_input (w\<lparr>tasks := ts\<rparr>) y = loader_input w y"
  by (cases y; simp)+

lemma loader_step:
  assumes "loader_input w x"
  shows "tasks (step tk x w) = tasks w \<and>
    interrupted (step tk x w) = interrupted w \<and>
    outbox (step tk x w) = outbox w @ republished [x] \<and>
    loader_input (step tk x w) y = loader_input w y \<and>
    step tk x (w\<lparr>tasks := ts\<rparr>) = (step tk x w)\<lparr>tasks := ts\<rparr>"
proof (cases x)
  case (Progress h p)
  with assms have cb: "h < length (promises w)" "progress_callback (promises w ! h) = Some Republish"
    by simp_all
  show ?thesis
    by (simp add: Progress progress_event_def cb postMessage_def loader_input_update)
next
  case (Settle h ok)
  have "settle h ok (w\<lparr>tasks := ts\<rparr>) = (settle h ok w)\<lparr>tasks := ts\<rparr>"
    by (simp add: settle_def)
  then show ?thesis
    by (simp add: Settle settle_pool loader_input_settle)
next
  case (Host e)
  with assms show ?thesis by simp
next
  case (Resume i)
  with assms show ?thesis by simp
next
  case (Decode i d)
  with assms show ?thesis by simp
qed

lemma republished_Cons: "republished (x # xs) = republished [x] @ republished xs"
  by (cases x) simp_all

lemma loader_run:
  assumes "\<forall>x\<in>set env. loader_input w x"
  shows "tasks (run tk env w) = tasks w \<and> interrupted (run tk env w) = interrupted w \<and>
    outbox (run tk env w) = outbox w @ republished env \<and>
    run tk env (w\<lparr>tasks := ts\<rparr>) = (run tk env w)\<lparr>tasks := ts\<rparr>"
  using assms
proof (induction env arbitrary: w)
  case Nil
  then show ?case by simp
next
  case (Cons x env)
  from Cons.prems have x: "loader_input w x" by simp
  from Cons.prems have "\<forall>y\<in>set env. loader_input (step tk x w) y"
    by (simp add: loader_step [OF x])
  from Cons.IH [OF this] show ?case
    by (simp add: loader_step [OF x] republished_Cons [of x env])
qed

lemma settles_loader: "\<forall>x\<in>set (settles ss). loader_input w x"
  by (auto simp: settles_def)

lemma republished_settles: "republished (settles ss) = []"
  by (induction ss) (auto simp: settles_def)

text \<open>The listener on \<^verbatim>\<open>generate\<close> and on \<^verbatim>\<open>load\<close>, in terms of the acquisition.\<close>

lemma generate_called:
  assumes "type e = ''generate''" "getInstance (config e) None (reset w) = ((t, m), w1)"
  shows "listener e w = w1\<lparr>tasks := tasks w @ [Generate_getInstance (data e) t m]\<rparr>"
    and "tasks w1 = tasks w" and "outbox w1 = outbox w" and "\<not> interrupted w1"
proof -
  have w1: "w1 = snd (getInstance (config e) None (reset w))" using assms(2) by simp
  show t: "tasks w1 = tasks w" and "outbox w1 = outbox w" and "\<not> interrupted w1"
    unfolding w1 by (simp_all add: getInstance_fields reset_def)
  show "listener e w = w1\<lparr>tasks := tasks w @ [Generate_getInstance (data e) t m]\<rparr>"
    using assms t by (simp add: listener_def switch_def generate_def)
qed

lemma load_called:
  assumes "type e = ''load''"
    "getInstance (config e) (Some Republish) (postMessage (Loading (loading_text (config e))) w) = ((t, m), w1)"
  shows "listener e w = w1\<lparr>tasks := tasks w @ [Load_getInstance t m]\<rparr>"
    and "tasks w1 = tasks w" and "outbox w1 = outbox w @ [Loading (loading_text (config e))]"
proof -
  have w1: "w1 = snd (getInstance (config e) (Some Republish)
      (postMessage (Loading (loading_text (config e))) w))" using assms(2) by simp
  show t: "tasks w1 = tasks w" and "outbox w1 = outbox w @ [Loading (loading_text (config e))]"
    unfolding w1 by (simp_all add: getInstance_fields postMessage_fields)
  show "listener e w = w1\<lparr>tasks := tasks w @ [Load_getInstance t m]\<rparr>"
    using assms t by (simp add: listener_def switch_def load_def)
qed

text \<open>The state in which a task that waits for the pipeline is resumed.\<close>

lemma awaited:
  assumes "\<forall>x\<in>set env. loader_input w1 x" "promise_all (run tk env w1) t m = Fulfilled"
    "tasks w1 = ts"
  shows "run tk env (w1\<lparr>tasks := ts @ [task]\<rparr>) = (run tk env w1)\<lparr>tasks := ts @ [task]\<rparr>"
    and "promise_all ((run tk env w1)\<lparr>tasks := ts @ [task]\<rparr>) t m = Fulfilled"
    and "outbox (run tk env w1) = outbox w1 @ republished env"
    and "interrupted (run tk env w1) = interrupted w1"
proof -
  from loader_run [OF assms(1), of tk]
  show "run tk env (w1\<lparr>tasks := ts @ [task]\<rparr>) = (run tk env w1)\<lparr>tasks := ts @ [task]\<rparr>"
    and "outbox (run tk env w1) = outbox w1 @ republished env"
    and "interrupted (run tk env w1) = interrupted w1"
    by simp_all
  have "promises ((run tk env w1)\<lparr>tasks := ts @ [task]\<rparr>) = promises (run tk env w1)" by simp
  from promise_all_promises [OF this] assms(2)
  show "promise_all ((run tk env w1)\<lparr>tasks := ts @ [task]\<rparr>) t m = Fulfilled" by simp
qed

section \<open>One generation from the command to the end\<close>

text \<open>
  Claim C6. A \<^verbatim>\<open>generate\<close> command succeeds when the pipeline it awaits is
  fulfilled (at once on a cache hit, or after some promises have settled), the chat
  template yields an object, and the engine does not fail. Then, whatever fragments the
  engine produces over its batch, and whether the loop ends by the engine's own criteria
  or by an \<^verbatim>\<open>interrupt\<close> command, what the command posts is: one \<^verbatim>\<open>start\<close>;
  then one \<^verbatim>\<open>update\<close> per fragment, in production order, each fragment decoded
  with \<^verbatim>\<open>skip_special_tokens\<close> true; then one \<^verbatim>\<open>complete\<close> whose payload is the
  raw output decoded with \<^verbatim>\<open>skip_special_tokens\<close> false. Nothing else is posted.
\<close>

theorem generate_event_order:
  assumes e: "type e = ''generate''"
    and enc: "apply_chat_template tk (data e) = Inr enc" "js_typeof enc = ''object''"
    and gi: "getInstance (config e) None (reset w) = ((t, m), w1)"
    and ok: "promise_all (run tk (settles ss) w1) t m = Fulfilled"
    and steps: "\<forall>x\<in>set steps. fst x \<noteq> []"
  shows "outbox (run tk ([Host e] @ settles ss @ [Resume (length (tasks w))] @
           decodes (length (tasks w)) steps @
           [Decode (length (tasks w)) (Step ids True chunk now)]) w) =
         outbox w @ [Start] @
           fst (feed (fragments tk True steps) \<lparr>startTime = None, numTokens = 0\<rparr>) @
           [Complete (batch_decode tk ids False)] \<and>
         outbox (run tk ([Host e] @ settles ss @ [Resume (length (tasks w))] @
           decodes (length (tasks w)) steps @
           [Host \<lparr>type = ''interrupt'', data = d, config = cfg\<rparr>,
            Decode (length (tasks w)) (Step ids natural chunk now)]) w) =
         outbox w @ [Start] @
           fst (feed (fragments tk True steps) \<lparr>startTime = None, numTokens = 0\<rparr>) @
           [Complete (batch_decode tk ids False)]"
proof -
  let ?i = "length (tasks w)"
  let ?G = "Generate_getInstance (data e) t m"
  let ?args = "\<lparr>inputs = enc, max_new_tokens = 512, streamer = Some CallbackTextStreamer,
    stopping_criteria = True\<rparr>"
  let ?c0 = "\<lparr>startTime = None, numTokens = 0\<rparr>"
  let ?fs = "fragments tk True steps"
  define S where "S = run tk (settles ss) w1"
  define R where "R = S\<lparr>tasks := tasks w @ [Generate_generate ?args ?c0],
    outbox := outbox w @ [Start]\<rparr>"
  define D where "D = R\<lparr>tasks := (tasks R)[?i := Generate_generate ?args (snd (feed ?fs ?c0))],
    outbox := outbox R @ fst (feed ?fs ?c0)\<rparr>"
  note c = generate_called [OF e gi]
  note a = awaited [OF settles_loader ok c(2), folded S_def]
  have h: "listener e w = w1\<lparr>tasks := tasks w @ [?G]\<rparr>" by (rule c(1))
  have s: "run tk (settles ss) (w1\<lparr>tasks := tasks w @ [?G]\<rparr>) = S\<lparr>tasks := tasks w @ [?G]\<rparr>"
    by (rule a(1))
  have r: "resume tk ?i (S\<lparr>tasks := tasks w @ [?G]\<rparr>) = R"
    using a(2) enc
    by (simp add: R_def resume_def generate_resumed_def set_task_def postMessage_def a(3) c(3)
        republished_settles)
  have R: "?i < length (tasks R)" "tasks R ! ?i = Generate_generate ?args ?c0"
    "streamer ?args = Some CallbackTextStreamer" "\<not> interrupted R"
    using c(4) by (simp_all add: R_def a(4))
  have d: "run tk (decodes ?i steps) R = D"
    using decode_fragments [OF R steps, of tk] by (simp add: D_def CallbackTextStreamer_def)
  have D: "?i < length (tasks D)" "tasks D ! ?i = Generate_generate ?args (snd (feed ?fs ?c0))"
    using R(1) by (simp_all add: D_def)
  have f: "model_generate tk ?i (Step ids True chunk now) D = generate_finished tk ?i ids D"
    by (rule decode_natural_end [OF D])
  have 1: "run tk ([Host e] @ settles ss @ [Resume ?i] @ decodes ?i steps @
      [Decode ?i (Step ids True chunk now)]) w = generate_finished tk ?i ids D"
    by (simp only: run_append run.simps step.simps h s r d f)
  have i: "listener \<lparr>type = ''interrupt'', data = d, config = cfg\<rparr> D = interrupt D"
    by (simp add: listener_def switch_def)
  have g: "model_generate tk ?i (Step ids natural chunk now) (interrupt D) =
      generate_finished tk ?i ids (interrupt D)"
    by (rule decode_interrupted_end [OF D]) simp
  have 2: "run tk ([Host e] @ settles ss @ [Resume ?i] @ decodes ?i steps @
      [Host \<lparr>type = ''interrupt'', data = d, config = cfg\<rparr>,
       Decode ?i (Step ids natural chunk now)]) w = generate_finished tk ?i ids (interrupt D)"
    by (simp only: run_append run.simps step.simps h s r d i g)
  show ?thesis
    unfolding 1 2
    by (simp add: generate_finished_def set_task_fields postMessage_fields interrupt_def
        D_def R_def)
qed

theorem generate_event_order_witness:
  "type (command ''generate'' llama) = ''generate'' \<and>
   apply_chat_template stub_tokenizer hi = Inr (BatchEncoding [[1, 2, 3]]) \<and>
   js_typeof (BatchEncoding [[1, 2, 3]]) = ''object'' \<and>
   outbox (run stub_tokenizer
     ([Host (command ''generate'' llama)] @ settles [] @ [Resume 1] @
      decodes 1 [([[1, 2, 3]], [4], 10), ([[1, 2, 3, 4]], [5, 0], 15)] @
      [Decode 1 (Step [[1, 2, 3, 4, 5, 0]] True [] 20)]) loaded) =
   outbox loaded @
     [Start, Update ''Hel'' None 1, Update ''lo'' (Some (Finite 400)) 2,
      Complete [''<|user|>hi<|assistant|>Hello<|end|>'']]"
proof -
  have e: "type (command ''generate'' llama) = ''generate''"
    and enc: "apply_chat_template stub_tokenizer (data (command ''generate'' llama)) =
        Inr (BatchEncoding [[1, 2, 3]])"
      "js_typeof (BatchEncoding [[1, 2, 3]]) = ''object''"
    and gi: "getInstance (config (command ''generate'' llama)) None (reset loaded) =
        ((0, 1), reset loaded)"
    and ok: "promise_all (run stub_tokenizer (settles []) (reset loaded)) 0 1 = Fulfilled"
    and steps: "\<forall>x\<in>set [([[1, 2, 3]], [4], 10::real), ([[1, 2, 3, 4]], [5, 0], 15)]. fst x \<noteq> []"
    by (simp_all add: loaded_eq settles_def worker_defs stub_defs)
  have l: "length (tasks loaded) = 1" by (simp add: loaded_eq)
  from generate_event_order [OF e enc gi ok steps, of "[[1, 2, 3, 4, 5, 0]]" "[]" 20]
  show ?thesis
    unfolding l using e enc
    by (simp add: fragments_def js_div_def cb_def stub_defs)
qed

text \<open>
  Claim C8. The generation session is what \<^verbatim>\<open>generate\<close> does once the pipeline is
  there (lines 106-161); the listener's \<^verbatim>\<open>reset()\<close> and the acquisition come before
  it. When the chat template yields a value that is not an object, the session returns at
  once: the worker ends exactly as the \<^verbatim>\<open>reset()\<close>, the acquisition and the settling
  promises left it, with the call returned. The command has posted nothing, and nothing
  addressed to the returned call changes the worker afterwards.
\<close>

theorem silent_abort:
  assumes e: "type e = ''generate''"
    and enc: "apply_chat_template tk (data e) = Inr enc" "js_typeof enc \<noteq> ''object''"
    and gi: "getInstance (config e) None (reset w) = ((t, m), w1)"
    and ok: "promise_all (run tk (settles ss) w1) t m = Fulfilled"
  shows "run tk ([Host e] @ settles ss @ [Resume (length (tasks w))]) w =
           (run tk (settles ss) w1)\<lparr>tasks := tasks w @ [Returned]\<rparr> \<and>
         outbox (run tk ([Host e] @ settles ss @ [Resume (length (tasks w))]) w) = outbox w \<and>
         step tk (Decode (length (tasks w)) d)
           (run tk ([Host e] @ settles ss @ [Resume (length (tasks w))]) w) =
           run tk ([Host e] @ settles ss @ [Resume (length (tasks w))]) w \<and>
         step tk (Resume (length (tasks w)))
           (run tk ([Host e] @ settles ss @ [Resume (length (tasks w))]) w) =
           run tk ([Host e] @ settles ss @ [Resume (length (tasks w))]) w"
proof -
  let ?G = "Generate_getInstance (data e) t m"
  let ?S = "run tk (settles ss) w1"
  note c = generate_called [OF e gi]
  note a = awaited [OF settles_loader ok c(2)]
  have r: "resume tk (length (tasks w)) (?S\<lparr>tasks := tasks w @ [?G]\<rparr>) =
      ?S\<lparr>tasks := tasks w @ [Returned]\<rparr>"
    using a(2) enc by (simp add: resume_def generate_resumed_def set_task_def)
  have final: "run tk ([Host e] @ settles ss @ [Resume (length (tasks w))]) w =
      ?S\<lparr>tasks := tasks w @ [Returned]\<rparr>"
    by (simp add: run_append c(1) a(1) r)
  show ?thesis
    unfolding final
    by (simp add: a(3) c(3) republished_settles model_generate_def resume_def)
qed

theorem silent_abort_witness:
  "type (command ''generate'' llama) = ''generate'' \<and>
   apply_chat_template text_tokenizer hi = Inr (Text ''<|user|>hi<|assistant|>'') \<and>
   js_typeof (Text ''<|user|>hi<|assistant|>'') \<noteq> ''object'' \<and>
   run text_tokenizer ([Host (command ''generate'' llama)] @ settles [] @ [Resume 1]) loaded =
     loaded\<lparr>resets := 1, tasks := [Returned, Returned]\<rparr>"
proof -
  have e: "type (command ''generate'' llama) = ''generate''"
    and enc: "apply_chat_template text_tokenizer (data (command ''generate'' llama)) =
        Inr (Text ''<|user|>hi<|assistant|>'')"
      "js_typeof (Text ''<|user|>hi<|assistant|>'') \<noteq> ''object''"
    and gi: "getInstance (config (command ''generate'' llama)) None (reset loaded) =
        ((0, 1), reset loaded)"
    and ok: "promise_all (run text_tokenizer (settles []) (reset loaded)) 0 1 = Fulfilled"
    by (simp_all add: loaded_eq settles_def worker_defs stub_defs)
  have l: "length (tasks loaded) = 1" by (simp add: loaded_eq)
  from silent_abort [OF e enc gi ok]
  show ?thesis
    unfolding l using e enc
    by (simp add: settles_def loaded_eq reset_def stub_defs)
qed

section \<open>Interrupting a generation\<close>

text \<open>
  Claim C1. The check of the stopping criteria returns, for a batch of n sequences, n
  copies of the flag. Let a generation session be in its decoding loop, with the
  worker's stopping criteria passed to the engine, when the host sends
  \<^verbatim>\<open>interrupt\<close>. Then the check reports stop for every row, and the next decoding
  step of the session, whatever the engine's own criteria say, ends the loop: the
  session posts \<^verbatim>\<open>complete\<close> with the decoded output and returns. That step posts
  nothing else, no \<^verbatim>\<open>update\<close> and no \<^verbatim>\<open>error\<close>, and the returned call posts
  nothing later, so that the \<^verbatim>\<open>complete\<close> event is the only one.
\<close>

theorem interrupt_stops_decoding:
  assumes "i < length (tasks w)" "tasks w ! i = Generate_generate args c" "stopping_criteria args"
  shows "stopping_criteria_call ids w = replicate (length ids) (interrupted w) \<and>
         stopping_criteria_call ids (listener \<lparr>type = ''interrupt'', data = d, config = cfg\<rparr> w) =
           replicate (length ids) True \<and>
         run tk [Host \<lparr>type = ''interrupt'', data = d, config = cfg\<rparr>,
                 Decode i (Step ids natural chunk now)] w =
           w\<lparr>interrupted := True, tasks := (tasks w)[i := Returned],
             outbox := outbox w @ [Complete (batch_decode tk ids False)]\<rparr> \<and>
         step tk (Decode i later)
           (run tk [Host \<lparr>type = ''interrupt'', data = d, config = cfg\<rparr>,
                    Decode i (Step ids natural chunk now)] w) =
           run tk [Host \<lparr>type = ''interrupt'', data = d, config = cfg\<rparr>,
                   Decode i (Step ids natural chunk now)] w"
proof -
  let ?e = "\<lparr>type = ''interrupt'', data = d, config = cfg\<rparr>"
  let ?w = "listener ?e w"
  have l: "?w = w\<lparr>interrupted := True\<rparr>"
    by (simp add: listener_def switch_def interrupt_def)
  have stops: "decoding_stops args ids natural ?w"
    using assms(3) by (simp add: l decoding_interrupted)
  have "model_generate tk i (Step ids natural chunk now) ?w = generate_finished tk i ids ?w"
    using assms(1,2) stops by (simp add: model_generate_def l)
  then have final: "run tk [Host ?e, Decode i (Step ids natural chunk now)] w =
      w\<lparr>interrupted := True, tasks := (tasks w)[i := Returned],
        outbox := outbox w @ [Complete (batch_decode tk ids False)]\<rparr>"
    by (simp add: l generate_finished_def set_task_def postMessage_def)
  have inert: "model_generate tk i later
      (w\<lparr>interrupted := True, tasks := (tasks w)[i := Returned],
        outbox := outbox w @ [Complete (batch_decode tk ids False)]\<rparr>) =
      w\<lparr>interrupted := True, tasks := (tasks w)[i := Returned],
        outbox := outbox w @ [Complete (batch_decode tk ids False)]\<rparr>"
    using assms(1) by (simp add: model_generate_def)
  show ?thesis
    unfolding final
    by (simp add: inert stopping_criteria_call_def l)
qed

theorem interrupt_stops_decoding_witness:
  "(1::nat) < length (tasks streaming) \<and>
   run stub_tokenizer
     [Host \<lparr>type = ''interrupt'', data = [], config = llama\<rparr>,
      Decode 1 (Step [[1, 2, 3, 4]] False [5] 15)] streaming =
   streaming\<lparr>interrupted := True, tasks := [Returned, Returned],
     outbox := outbox loaded @
       [Start, Update ''Hel'' None 1, Complete [''<|user|>hi<|assistant|>Hel'']]\<rparr>"
proof -
  have h: "(1::nat) < length (tasks streaming)"
    "tasks streaming ! 1 =
       Generate_generate
         \<lparr>inputs = BatchEncoding [[1, 2, 3]], max_new_tokens = 512,
          streamer = Some \<lparr>skip_prompt = True, skip_special_tokens = True\<rparr>,
          stopping_criteria = True\<rparr>
         \<lparr>startTime = Some 10, numTokens = 1\<rparr>"
    "stopping_criteria
       \<lparr>inputs = BatchEncoding [[1, 2, 3]], max_new_tokens = 512,
        streamer = Some \<lparr>skip_prompt = True, skip_special_tokens = True\<rparr>,
        stopping_criteria = True\<rparr>"
    by (simp_all add: streaming_eq)
  from interrupt_stops_decoding [OF h, where tk = stub_tokenizer and ids = "[[1, 2, 3, 4]]"
      and d = "[]" and cfg = llama and natural = False and chunk = "[5]" and now = 15]
  show ?thesis
    using h(1) by (simp add: streaming_eq stub_defs)
qed

section \<open>Errors at the listener\<close>

text \<open>
  Claim C2 does not hold of the code. \<^verbatim>\<open>load\<close> and \<^verbatim>\<open>generate\<close> are called
  without \<^verbatim>\<open>await\<close>, so the \<^verbatim>\<open>catch\<close> of the listener never sees what they
  throw after their first \<^verbatim>\<open>await\<close>. Here the tokenizer cannot be fetched: the
  \<^verbatim>\<open>load\<close> command posts its \<^verbatim>\<open>loading\<close> event and fails, a \<^verbatim>\<open>generate\<close>
  command then fails on the same rejection, and the host receives neither an
  \<^verbatim>\<open>error\<close> nor a \<^verbatim>\<open>complete\<close> event.
\<close>

theorem rejected_await_posts_no_error:
  "outbox (run stub_tokenizer
     [Host (command ''load'' llama), Settle 0 False, Resume 0,
      Host (command ''generate'' llama), Resume 1] initial) =
     [Loading (loading_text llama)] \<and>
   tasks (run stub_tokenizer
     [Host (command ''load'' llama), Settle 0 False, Resume 0,
      Host (command ''generate'' llama), Resume 1] initial) = [Thrown, Thrown]"
  by (simp add: worker_defs stub_defs)

section \<open>One load from the command to the end\<close>

text \<open>
  Claim C9. A \<^verbatim>\<open>load\<close> command succeeds when the pipeline it awaits is fulfilled
  and the warm-up does not fail. While it waits, the library reports progress to the
  republishing callback and settles promises, in any order. What the command posts is:
  first the \<^verbatim>\<open>loading\<close> event that names the Config; then every progress report,
  verbatim and in production order; then, once the pipeline is there, the second
  \<^verbatim>\<open>loading\<close> event, after which it calls \<^verbatim>\<open>model.generate\<close> on the encoding of
  \<^verbatim>\<open>"a"\<close> with \<^verbatim>\<open>max_new_tokens\<close> = 1, without streamer or stopping criteria;
  and, when that generation has ended, \<^verbatim>\<open>ready\<close>. Nothing else is posted.
\<close>

theorem load_event_order:
  assumes e: "type e = ''load''"
    and gi: "getInstance (config e) (Some Republish)
               (postMessage (Loading (loading_text (config e))) w) = ((t, m), w1)"
    and env: "\<forall>x\<in>set env. loader_input w1 x"
    and ok: "promise_all (run tk env w1) t m = Fulfilled"
  shows "outbox (run tk ([Host e] @ env @ [Resume (length (tasks w))]) w) =
           outbox w @ [Loading (loading_text (config e))] @ republished env @
           [Loading ''Compiling shaders and warming up model...''] \<and>
         tasks (run tk ([Host e] @ env @ [Resume (length (tasks w))]) w) ! length (tasks w) =
           Load_generate \<lparr>inputs = BatchEncoding (call tk ''a''), max_new_tokens = 1,
             streamer = None, stopping_criteria = False\<rparr> \<and>
         outbox (run tk ([Host e] @ env @ [Resume (length (tasks w))] @
             decodes (length (tasks w)) warm @
             [Decode (length (tasks w)) (Step ids True chunk now)]) w) =
           outbox w @ [Loading (loading_text (config e))] @ republished env @
           [Loading ''Compiling shaders and warming up model...'', Ready]"
proof -
  let ?i = "length (tasks w)"
  let ?L = "Load_getInstance t m"
  let ?args = "\<lparr>inputs = BatchEncoding (call tk ''a''), max_new_tokens = 1,
    streamer = None, stopping_criteria = False\<rparr>"
  define S where "S = run tk env w1"
  define R where "R = S\<lparr>tasks := tasks w @ [Load_generate ?args],
    outbox := outbox w @ [Loading (loading_text (config e))] @ republished env @
      [Loading ''Compiling shaders and warming up model...'']\<rparr>"
  note c = load_called [OF e gi]
  note a = awaited [OF env ok c(2), folded S_def]
  have h: "listener e w = w1\<lparr>tasks := tasks w @ [?L]\<rparr>" by (rule c(1))
  have s: "run tk env (w1\<lparr>tasks := tasks w @ [?L]\<rparr>) = S\<lparr>tasks := tasks w @ [?L]\<rparr>"
    by (rule a(1))
  have r: "resume tk ?i (S\<lparr>tasks := tasks w @ [?L]\<rparr>) = R"
    using a(2)
    by (simp add: R_def resume_def load_resumed_def set_task_def postMessage_def a(3) c(3))
  have R: "?i < length (tasks R)" "tasks R ! ?i = Load_generate ?args" "\<not> stopping_criteria ?args"
    by (simp_all add: R_def)
  have d: "run tk (decodes ?i warm) R = R"
    by (rule warmup_idles [OF R])
  have f: "model_generate tk ?i (Step ids True chunk now) R = load_finished ?i R"
    by (rule warmup_end [OF R(1,2)])
  have 1: "run tk ([Host e] @ env @ [Resume ?i]) w = R"
    by (simp only: run_append run.simps step.simps h s r)
  have 2: "run tk ([Host e] @ env @ [Resume ?i] @ decodes ?i warm @
      [Decode ?i (Step ids True chunk now)]) w = load_finished ?i R"
    by (simp only: run_append run.simps step.simps h s r d f)
  show ?thesis
    unfolding 1 2 by (simp add: load_finished_def set_task_fields postMessage_fields R_def)
qed

theorem load_event_order_witness:
  "type (command ''load'' llama) = ''load'' \<and>
   outbox (run stub_tokenizer
     ([Host (command ''load'' llama)] @
      (artifact 0 ''tokenizer.json'' @ [Settle 0 True] @
       artifact 1 ''model.onnx'' @ [Settle 1 True]) @
      [Resume 0] @ decodes 0 [] @ [Decode 0 (Step [[6]] True [] 0)]) initial) =
   [Loading (loading_text llama),
    Republished \<lparr>progress_status = ''initiate'', progress_file = ''tokenizer.json''\<rparr>,
    Republished \<lparr>progress_status = ''progress'', progress_file = ''tokenizer.json''\<rparr>,
    Republished \<lparr>progress_status = ''done'', progress_file = ''tokenizer.json''\<rparr>,
    Republished \<lparr>progress_status = ''initiate'', progress_file = ''model.onnx''\<rparr>,
    Republished \<lparr>progress_status = ''progress'', progress_file = ''model.onnx''\<rparr>,
    Republished \<lparr>progress_status = ''done'', progress_file = ''model.onnx''\<rparr>,
    Loading ''Compiling shaders and warming up model...'', Ready]"
proof -
  let ?w1 = "snd (getInstance llama (Some Republish) (postMessage (Loading (loading_text llama)) initial))"
  let ?env = "artifact 0 ''tokenizer.json'' @ [Settle 0 True] @
       artifact 1 ''model.onnx'' @ [Settle 1 True]"
  have e: "type (command ''load'' llama) = ''load''"
    and gi: "getInstance (config (command ''load'' llama)) (Some Republish)
        (postMessage (Loading (loading_text (config (command ''load'' llama)))) initial) =
        ((0, 1), ?w1)"
    and env: "\<forall>x\<in>set ?env. loader_input ?w1 x"
    and ok: "promise_all (run stub_tokenizer ?env ?w1) 0 1 = Fulfilled"
    by (simp_all add: worker_defs stub_defs)
  have l: "length (tasks initial) = 0" by (simp add: initial_def)
  from load_event_order [OF e gi env ok, of "[]" "[[6]]" "[]" 0]
  show ?thesis
    unfolding l using e
    by (simp add: decodes_def worker_defs stub_defs)
qed

end
